theory Spec2Isabelle
  imports Main
begin

section \<open>The session client: class ApiClient of lib/api.ts\<close>

text \<open>
  The client keeps an access token and a refresh token in two private fields, mirrors
  them in the platform's key-value storage, and sends every call through the private
  method \<open>request\<close>, which refreshes the tokens and retries once after a 401.

  What lies outside the class is modelled as follows.
  \<^item> The platform storage (\<open>localStorage\<close> or \<open>SecureStore\<close>) is a map from keys to
    strings. In \<open>setItem\<close>, \<open>removeItem\<close>, \<open>saveTokens\<close> and \<open>clearTokens\<close> every storage
    operation resolves, and has taken effect when the function that awaits it goes on.
    \<open>saveTokens_with\<close> and \<open>clearTokens_with\<close> are the same two functions when the
    operations on some keys reject.
  \<^item> A JSON body is a record of the members the client reads, at the types the
    interfaces \<open>Session\<close>, \<open>LoginResponse\<close> and \<open>ApiError\<close> declare for them; all other
    members are carried along unread.
  \<^item> The network decides how each \<open>fetch\<close> settles: the n-th call the client issues
    settles as \<open>net n\<close>. \<open>Rejected\<close> is a \<open>fetch\<close> that rejects (no response at all);
    \<open>Response st None\<close> is a response of status \<open>st\<close> whose \<open>json()\<close> rejects;
    \<open>Response st (Some d)\<close> is a response of status \<open>st\<close> with the parsed body \<open>d\<close>.
  \<^item> Every call issued is appended to \<open>calls\<close>, tagged with the place in the source
    that issued it: the first \<open>fetch\<close> of \<open>request\<close>, the \<open>fetch\<close> of
    \<open>refreshAccessToken\<close>, or the retry of \<open>request\<close>.
\<close>

subsection \<open>Data\<close>

record session =
  access_token :: string
  refresh_token :: string
  expires_at :: "nat option"
  expires_in :: "nat option"

record json =
  error_member :: "string option"
  message_member :: "string option"
  session_member :: "session option"
  user_member :: "string option"
  other_members :: "(string \<times> string) list"

datatype payload = Text string | Stringify "(string \<times> string) list"

record request_init =
  http_method :: "string option"
  body :: "payload option"
  headers :: "(string \<times> string) list"

datatype call =
    Request string request_init
  | Refresh string request_init
  | Retry string request_init

datatype outcome = Rejected | Response nat "json option"

record api_result =
  data :: "json option"
  error :: "json option"

record world =
  baseUrl :: string
  accessToken :: "string option"
  refreshToken :: "string option"
  storage :: "string \<Rightarrow> string option"
  net :: "nat \<Rightarrow> outcome"
  calls :: "call list"

definition TOKEN_KEY :: string where
  "TOKEN_KEY = ''maternal_health_token''"

definition REFRESH_TOKEN_KEY :: string where
  "REFRESH_TOKEN_KEY = ''maternal_health_refresh_token''"

definition USER_KEY :: string where
  "USER_KEY = ''maternal_health_user''"

subsection \<open>JavaScript helpers\<close>

text \<open>A string-or-null is truthy when it is a non-empty string.\<close>

fun truthy :: "string option \<Rightarrow> bool" where
  "truthy None = False"
| "truthy (Some s) = (s \<noteq> [])"

text \<open>What a template literal prints for a string-or-null.\<close>

fun template :: "string option \<Rightarrow> string" where
  "template None = ''null''"
| "template (Some s) = s"

text \<open>\<open>response.ok\<close>: the status is in the range 200 to 299.\<close>

definition ok :: "nat \<Rightarrow> bool" where
  "ok st = (200 \<le> st \<and> st \<le> 299)"

text \<open>Assignment to a property of a headers object: an existing key keeps its place.\<close>

fun setHeader :: "string \<Rightarrow> string \<Rightarrow> (string \<times> string) list \<Rightarrow> (string \<times> string) list" where
  "setHeader k v [] = [(k, v)]"
| "setHeader k v ((k', v') # hs) =
     (if k = k' then (k, v) # hs else (k', v') # setHeader k v hs)"

text \<open>Object spread: the members of the second object are assigned onto the first.\<close>

fun spread :: "(string \<times> string) list \<Rightarrow> (string \<times> string) list \<Rightarrow> (string \<times> string) list" where
  "spread hs [] = hs"
| "spread hs ((k, v) # kvs) = spread (setHeader k v hs) kvs"

subsection \<open>Storage helper\<close>

definition getItem :: "string \<Rightarrow> world \<Rightarrow> string option" where
  "getItem key w = storage w key"

definition setItem :: "string \<Rightarrow> string \<Rightarrow> world \<Rightarrow> world" where
  "setItem key v w = w\<lparr>storage := (storage w)(key \<mapsto> v)\<rparr>"

definition removeItem :: "string \<Rightarrow> world \<Rightarrow> world" where
  "removeItem key w = w\<lparr>storage := (storage w)(key := None)\<rparr>"

subsection \<open>Token store\<close>

definition loadTokens :: "world \<Rightarrow> world" where
  "loadTokens w =
     w\<lparr>accessToken := getItem TOKEN_KEY w, refreshToken := getItem REFRESH_TOKEN_KEY w\<rparr>"

text \<open>
  \<open>saveTokens\<close> assigns both fields and then writes both keys. Called with no session
  (\<open>data.session\<close> undefined), reading \<open>session.access_token\<close> throws inside its
  \<open>try\<close>; the handler only logs, so nothing changes.
\<close>

definition saveTokens :: "session option \<Rightarrow> world \<Rightarrow> world" where
  "saveTokens so w =
     (case so of
        None \<Rightarrow> w
      | Some s \<Rightarrow>
          setItem REFRESH_TOKEN_KEY (refresh_token s)
            (setItem TOKEN_KEY (access_token s)
              (w\<lparr>accessToken := Some (access_token s),
                 refreshToken := Some (refresh_token s)\<rparr>)))"

definition clearTokens :: "world \<Rightarrow> world" where
  "clearTokens w =
     removeItem USER_KEY
       (removeItem REFRESH_TOKEN_KEY
         (removeItem TOKEN_KEY (w\<lparr>accessToken := None, refreshToken := None\<rparr>)))"

text \<open>
  \<open>saveUser\<close> stores \<open>JSON.stringify(user)\<close>; the body carries the user as that text.
  With no user, \<open>JSON.stringify\<close> returns undefined, and the storage keeps the text
  \<open>undefined\<close> for it.
\<close>

definition saveUser :: "string option \<Rightarrow> world \<Rightarrow> world" where
  "saveUser uo w =
     (case uo of None \<Rightarrow> setItem USER_KEY ''undefined'' w | Some u \<Rightarrow> setItem USER_KEY u w)"






definition getAccessToken :: "world \<Rightarrow> string option" where
  "getAccessToken w = accessToken w"

subsection \<open>Requests\<close>

definition issue :: "call \<Rightarrow> world \<Rightarrow> world" where
  "issue c w = w\<lparr>calls := calls w @ [c]\<rparr>"

definition fetch :: "call \<Rightarrow> world \<Rightarrow> outcome \<times> world" where
  "fetch c w = (net w (length (calls w)), issue c w)"

definition network_error :: api_result where
  "network_error =
     \<lparr>data = None,
      error = Some \<lparr>error_member = Some ''Network error'',
                    message_member = Some ''Failed to connect to server'',
                    session_member = None, user_member = None, other_members = []\<rparr>\<rparr>"

definition refresh_call :: "world \<Rightarrow> string \<Rightarrow> call" where
  "refresh_call w tok =
     Refresh (baseUrl w @ ''/api/auth/refresh'')
       \<lparr>http_method = Some ''POST'',
        body = Some (Stringify [(''refresh_token'', tok)]),
        headers = [(''Content-Type'', ''application/json'')]\<rparr>"

definition refreshAccessToken :: "world \<Rightarrow> bool \<times> world" where
  "refreshAccessToken w =
     (case refreshToken w of
        None \<Rightarrow> (False, w)
      | Some tok \<Rightarrow>
          if tok = [] then (False, w)
          else
            (case fetch (refresh_call w tok) w of
               (Rejected, w1) \<Rightarrow> (False, clearTokens w1)
             | (Response st b, w1) \<Rightarrow>
                 if \<not> ok st then (False, clearTokens w1)
                 else
                   (case b of
                      None \<Rightarrow> (False, clearTokens w1)
                    | Some d \<Rightarrow> (True, saveTokens (session_member d) w1))))"

text \<open>The headers \<open>request\<close> builds before its first \<open>fetch\<close>.\<close>

definition first_headers :: "world \<Rightarrow> request_init \<Rightarrow> (string \<times> string) list" where
  "first_headers w options =
     (let hs = spread [(''Content-Type'', ''application/json'')] (headers options)
      in if truthy (accessToken w)
         then setHeader ''Authorization'' (''Bearer '' @ template (accessToken w)) hs
         else hs)"

text \<open>What \<open>request\<close> returns for a settled \<open>fetch\<close> that is not answered by a refresh.\<close>

definition as_result :: "nat \<Rightarrow> json \<Rightarrow> api_result" where
  "as_result st d =
     (if \<not> ok st then \<lparr>data = None, error = Some d\<rparr> else \<lparr>data = Some d, error = None\<rparr>)"

definition request :: "string \<Rightarrow> request_init \<Rightarrow> world \<Rightarrow> api_result \<times> world" where
  "request endpoint options w =
     (let url = baseUrl w @ endpoint;
          hs = first_headers w options
      in case fetch (Request url (options\<lparr>headers := hs\<rparr>)) w of
           (Rejected, w1) \<Rightarrow> (network_error, w1)
         | (Response st None, w1) \<Rightarrow> (network_error, w1)
         | (Response st (Some d), w1) \<Rightarrow>
             if \<not> ok st then
               if st = 401 \<and> truthy (refreshToken w1) then
                 (case refreshAccessToken w1 of
                    (True, w2) \<Rightarrow>
                      (let hs2 = setHeader ''Authorization''
                                   (''Bearer '' @ template (accessToken w2)) hs
                       in case fetch (Retry url (options\<lparr>headers := hs2\<rparr>)) w2 of
                            (Rejected, w3) \<Rightarrow> (network_error, w3)
                          | (Response st2 None, w3) \<Rightarrow> (network_error, w3)
                          | (Response st2 (Some d2), w3) \<Rightarrow> (as_result st2 d2, w3))
                  | (False, w2) \<Rightarrow> (\<lparr>data = None, error = Some d\<rparr>, w2))
               else (\<lparr>data = None, error = Some d\<rparr>, w1)
             else (\<lparr>data = Some d, error = None\<rparr>, w1))"

subsection \<open>Authentication methods\<close>





definition isAuthenticated :: "world \<Rightarrow> bool \<times> world" where
  "isAuthenticated w =
     (let w1 = (if \<not> truthy (accessToken w) then loadTokens w else w)
      in (truthy (accessToken w1), w1))"

subsection \<open>Calls in flight together\<close>

text \<open>
  \<open>request\<close> is an async function: it runs until its next \<open>await\<close> and is resumed when
  the awaited promise settles, and other calls of \<open>request\<close> on the same client run in
  between. A task is a call of \<open>request\<close> suspended at one of its awaits:
  \<^item> \<open>AwaitFetch\<close>: at the first \<open>fetch\<close> and the \<open>json()\<close> after it;
  \<^item> \<open>AwaitRefresh\<close>: inside \<open>refreshAccessToken\<close>, at its \<open>fetch\<close> and \<open>json()\<close>, holding
    the body \<open>data\<close> of the first response;
  \<^item> \<open>AwaitClear\<close>, \<open>AwaitSave\<close>: at the \<open>Promise.all\<close> of \<open>clearTokens\<close> and of
    \<open>saveTokens\<close>, after the fields were assigned;
  \<^item> \<open>AwaitRetry\<close>: at the second \<open>fetch\<close> and its \<open>json()\<close>;
  \<^item> \<open>Returned\<close>: the promise of \<open>request\<close> has resolved.
  A \<open>fetch\<close> and the \<open>json()\<close> that follows it are one await here: the code reads no
  field of the client between the two. The events carry the outcomes, so \<open>net\<close> is not
  read.
\<close>

datatype task =
    AwaitFetch string request_init "(string \<times> string) list"
  | AwaitRefresh string request_init "(string \<times> string) list" json
  | AwaitClear json
  | AwaitSave string request_init "(string \<times> string) list"
  | AwaitRetry
  | Returned api_result

datatype event =
    Call string request_init
  | Settle nat outcome
  | Resume nat

definition start :: "string \<Rightarrow> request_init \<Rightarrow> world \<Rightarrow> task \<times> world" where
  "start endpoint options w =
     (let url = baseUrl w @ endpoint;
          hs = first_headers w options
      in (AwaitFetch url options hs, issue (Request url (options\<lparr>headers := hs\<rparr>)) w))"

fun settle :: "task \<Rightarrow> outcome \<Rightarrow> world \<Rightarrow> task \<times> world" where
  "settle (AwaitFetch url options hs) resp w =
     (case resp of
        Rejected \<Rightarrow> (Returned network_error, w)
      | Response st None \<Rightarrow> (Returned network_error, w)
      | Response st (Some d) \<Rightarrow>
          if \<not> ok st then
            if st = 401 \<and> truthy (refreshToken w) then
              (case refreshToken w of
                 None \<Rightarrow> (Returned \<lparr>data = None, error = Some d\<rparr>, w)
               | Some tok \<Rightarrow>
                   (AwaitRefresh url options hs d, issue (refresh_call w tok) w))
            else (Returned \<lparr>data = None, error = Some d\<rparr>, w)
          else (Returned \<lparr>data = Some d, error = None\<rparr>, w))"
| "settle (AwaitRefresh url options hs d) resp w =
     (case resp of
        Rejected \<Rightarrow> (AwaitClear d, clearTokens w)
      | Response st b \<Rightarrow>
          if \<not> ok st then (AwaitClear d, clearTokens w)
          else
            (case b of
               None \<Rightarrow> (AwaitClear d, clearTokens w)
             | Some r \<Rightarrow> (AwaitSave url options hs, saveTokens (session_member r) w)))"
| "settle AwaitRetry resp w =
     (case resp of
        Rejected \<Rightarrow> (Returned network_error, w)
      | Response st None \<Rightarrow> (Returned network_error, w)
      | Response st (Some d) \<Rightarrow> (Returned (as_result st d), w))"
| "settle t resp w = (t, w)"

fun resume :: "task \<Rightarrow> world \<Rightarrow> task \<times> world" where
  "resume (AwaitClear d) w = (Returned \<lparr>data = None, error = Some d\<rparr>, w)"
| "resume (AwaitSave url options hs) w =
     (AwaitRetry,
      issue (Retry url (options\<lparr>headers :=
               setHeader ''Authorization'' (''Bearer '' @ template (accessToken w)) hs\<rparr>)) w)"
| "resume t w = (t, w)"

fun step :: "world \<times> task list \<Rightarrow> event \<Rightarrow> world \<times> task list" where
  "step (w, ts) (Call endpoint options) =
     (case start endpoint options w of (t, w') \<Rightarrow> (w', ts @ [t]))"
| "step (w, ts) (Settle i resp) =
     (if i < length ts
      then (case settle (ts ! i) resp w of (t, w') \<Rightarrow> (w', ts[i := t]))
      else (w, ts))"
| "step (w, ts) (Resume i) =
     (if i < length ts
      then (case resume (ts ! i) w of (t, w') \<Rightarrow> (w', ts[i := t]))
      else (w, ts))"

definition run :: "event list \<Rightarrow> world \<times> task list \<Rightarrow> world \<times> task list" where
  "run evs cfg = foldl step cfg evs"

fun is_refresh :: "call \<Rightarrow> bool" where
  "is_refresh (Refresh url init) = True"
| "is_refresh c = False"

fun is_call :: "event \<Rightarrow> bool" where
  "is_call (Call endpoint options) = True"
| "is_call e = False"

fun awaiting_fetch :: "task \<Rightarrow> bool" where
  "awaiting_fetch (AwaitFetch url options hs) = True"
| "awaiting_fetch t = False"

definition refreshes :: "world \<Rightarrow> nat" where
  "refreshes w = length (filter is_refresh (calls w))"

definition pending :: "task list \<Rightarrow> nat" where
  "pending ts = length (filter awaiting_fetch ts)"





subsection \<open>The operations that assign the tokens\<close>









section \<open>The relay: the WebSocket handlers of the server\<close>

text \<open>
  The handlers registered in \<open>io.on('connection', ...)\<close>. They call three collaborators
  that are not part of the repository: the socket.io server (rooms and emission), the
  token verification \<open>supabaseAuth.auth.getUser\<close>, and the table \<open>chat_messages\<close>.
\<close>

subsection \<open>Collaborators\<close>

record message_data =
  room_id :: string
  sender_id :: string
  content :: string
  created_at :: string
  read :: bool

record chat_message = message_data +
  message_id :: string

record insert_response =
  inserted :: "chat_message option"
  insert_failure :: "string option"

text \<open>
  Modelled from the spec: the table \<open>chat_messages\<close> lives in the hosted database. The
  spec gives \<open>persistMessage(roomId, senderId, content) -> ChatMessage | failure\<close>, with
  the id assigned at persistence time. The table is the list of its rows; whether an
  insert is refused, and the id a new row gets, are the database's to decide.
\<close>

record database =
  chat_messages :: "chat_message list"
  insert_error :: "message_data \<Rightarrow> string option"
  new_id :: "nat \<Rightarrow> string"

definition stored_row :: "message_data \<Rightarrow> database \<Rightarrow> chat_message" where
  "stored_row md d =
     message_data.extend md (chat_message.fields (new_id d (length (chat_messages d))))"

definition insert_single :: "message_data \<Rightarrow> database \<Rightarrow> insert_response \<times> database" where
  "insert_single md d =
     (case insert_error d md of
        Some e \<Rightarrow> (\<lparr>inserted = None, insert_failure = Some e\<rparr>, d)
      | None \<Rightarrow>
          (\<lparr>inserted = Some (stored_row md d), insert_failure = None\<rparr>,
           d\<lparr>chat_messages := chat_messages d @ [stored_row md d]\<rparr>))"

text \<open>
  Modelled from the spec: \<open>verifyToken(token) -> identity | failure\<close>. The call resolves to
  the pair the handler destructures: the user (here, the user's id) and the error.
\<close>

record auth_response =
  auth_user :: "string option"
  auth_error :: "string option"

record relay =
  rooms :: "string \<Rightarrow> string list"
  db :: database
  getUser :: "string \<Rightarrow> auth_response"

text \<open>
  Modelled from the spec: the Connection Registry is socket.io's room adapter. A room is
  the set of the connections that joined it, kept as a JavaScript \<open>Set\<close>: a list without
  repetitions, in the order of insertion.
\<close>

definition set_add :: "'a \<Rightarrow> 'a list \<Rightarrow> 'a list" where
  "set_add x xs = (if x \<in> set xs then xs else xs @ [x])"

definition set_delete :: "'a \<Rightarrow> 'a list \<Rightarrow> 'a list" where
  "set_delete x xs = removeAll x xs"

definition socket_join :: "string \<Rightarrow> string \<Rightarrow> relay \<Rightarrow> relay" where
  "socket_join sid room r = r\<lparr>rooms := (rooms r)(room := set_add sid (rooms r room))\<rparr>"

definition socket_leave :: "string \<Rightarrow> string \<Rightarrow> relay \<Rightarrow> relay" where
  "socket_leave sid room r = r\<lparr>rooms := (rooms r)(room := set_delete sid (rooms r room))\<rparr>"

text \<open>
  Modelled from the spec: the three ways the handlers emit. \<open>SocketEmit\<close> is
  \<open>socket.emit\<close> (to the connection itself), \<open>IoTo\<close> is \<open>io.to(room).emit\<close> (to every member
  of the room), \<open>SocketTo\<close> is \<open>socket.to(room).emit\<close> (to every member but the connection).
\<close>

datatype packet =
    ErrorPacket string
  | MessagePacket "chat_message option"
  | TypingPacket string

datatype emission =
    SocketEmit string string packet
  | IoTo string string packet
  | SocketTo string string string packet

fun recipients :: "relay \<Rightarrow> emission \<Rightarrow> string list" where
  "recipients r (SocketEmit sid ev p) = [sid]"
| "recipients r (IoTo room ev p) = rooms r room"
| "recipients r (SocketTo sid room ev p) = set_delete sid (rooms r room)"

subsection \<open>Handlers\<close>

record send_message =
  roomId :: string
  message :: string
  senderId :: string
  token :: string

record typing =
  typing_roomId :: string
  typing_userId :: string

definition on_join_room :: "string \<Rightarrow> string \<Rightarrow> relay \<Rightarrow> emission list \<times> relay" where
  "on_join_room sid room r = ([], socket_join sid room r)"

definition on_leave_room :: "string \<Rightarrow> string \<Rightarrow> relay \<Rightarrow> emission list \<times> relay" where
  "on_leave_room sid room r = ([], socket_leave sid room r)"

text \<open>The object \<open>messageData\<close>; \<open>now\<close> is what \<open>new Date().toISOString()\<close> returns.\<close>

definition messageData :: "string \<Rightarrow> send_message \<Rightarrow> message_data" where
  "messageData now d =
     \<lparr>room_id = roomId d, sender_id = senderId d, content = message d,
      created_at = now, read = False\<rparr>"

definition on_send_message :: "string \<Rightarrow> string \<Rightarrow> send_message \<Rightarrow> relay
    \<Rightarrow> emission list \<times> relay" where
  "on_send_message sid now d r =
     (let resp = getUser r (token d)
      in if auth_error resp \<noteq> None \<or> auth_user resp = None
            \<or> auth_user resp \<noteq> Some (senderId d)
         then ([SocketEmit sid ''error'' (ErrorPacket ''Unauthorized'')], r)
         else
           (case insert_single (messageData now d) (db r) of
              (res, db') \<Rightarrow>
                (case insert_failure res of
                   Some e \<Rightarrow>
                     ([SocketEmit sid ''error'' (ErrorPacket ''Failed to send message'')],
                      r\<lparr>db := db'\<rparr>)
                 | None \<Rightarrow>
                     ([IoTo (roomId d) ''receive-message'' (MessagePacket (inserted res))],
                      r\<lparr>db := db'\<rparr>))))"

definition on_typing :: "string \<Rightarrow> typing \<Rightarrow> relay \<Rightarrow> emission list \<times> relay" where
  "on_typing sid d r =
     ([SocketTo sid (typing_roomId d) ''user-typing'' (TypingPacket (typing_userId d))], r)"

definition on_stop_typing :: "string \<Rightarrow> typing \<Rightarrow> relay \<Rightarrow> emission list \<times> relay" where
  "on_stop_typing sid d r =
     ([SocketTo sid (typing_roomId d) ''user-stop-typing'' (TypingPacket (typing_userId d))], r)"

text \<open>A verification that names \<open>uid\<close>, with no error.\<close>

definition verified_as :: "string \<Rightarrow> auth_response" where
  "verified_as uid = \<lparr>auth_user = Some uid, auth_error = None\<rparr>"

section \<open>Sample inputs\<close>

definition error_body :: "string \<Rightarrow> json" where
  "error_body e =
     \<lparr>error_member = Some e, message_member = None, session_member = None,
      user_member = None, other_members = []\<rparr>"

definition sample_session :: session where
  "sample_session =
     \<lparr>access_token = ''a1'', refresh_token = ''r1'', expires_at = None, expires_in = None\<rparr>"

definition session_body :: json where
  "session_body =
     \<lparr>error_member = None, message_member = None, session_member = Some sample_session,
      user_member = None, other_members = []\<rparr>"

definition profile_body :: json where
  "profile_body =
     \<lparr>error_member = None, message_member = None, session_member = None,
      user_member = None, other_members = [(''profile'', ''p'')]\<rparr>"

definition no_options :: request_init where
  "no_options = \<lparr>http_method = None, body = None, headers = []\<rparr>"

text \<open>A network that settles the calls as listed, and rejects every later one.\<close>

definition script :: "outcome list \<Rightarrow> nat \<Rightarrow> outcome" where
  "script os n = (if n < length os then os ! n else Rejected)"

text \<open>A client that holds the session \<open>a0\<close>, \<open>r0\<close> and a cached user.\<close>

definition client :: "(nat \<Rightarrow> outcome) \<Rightarrow> world" where
  "client n =
     \<lparr>baseUrl = ''http://localhost:3001'', accessToken = Some ''a0'',
      refreshToken = Some ''r0'',
      storage = [TOKEN_KEY \<mapsto> ''a0'', REFRESH_TOKEN_KEY \<mapsto> ''r0'', USER_KEY \<mapsto> ''u0''],
      net = n, calls = []\<rparr>"

text \<open>
  Two calls in flight together: both are answered 401 before either refresh settles. The
  first refresh succeeds and its call retries; the second refresh is refused.
\<close>

definition two_calls :: "event list" where
  "two_calls =
     [Call ''/api/profile'' no_options,
      Call ''/api/notifications'' no_options,
      Settle 0 (Response 401 (Some (error_body ''Unauthorized''))),
      Settle 1 (Response 401 (Some (error_body ''Unauthorized''))),
      Settle 0 (Response 200 (Some session_body)),
      Resume 0,
      Settle 1 (Response 401 (Some (error_body ''Invalid refresh token''))),
      Resume 1,
      Settle 0 (Response 200 (Some profile_body))]"


text \<open>A relay with the connections \<open>X\<close> and \<open>Y\<close> in room \<open>r1\<close>, where token \<open>t1\<close> is user \<open>u1\<close>'s.\<close>

definition sample_relay :: "(message_data \<Rightarrow> string option) \<Rightarrow> relay" where
  "sample_relay refuse =
     \<lparr>rooms = (\<lambda>room. if room = ''r1'' then [''X'', ''Y''] else []),
      db = \<lparr>chat_messages = [], insert_error = refuse, new_id = (\<lambda>n. ''m1'')\<rparr>,
      getUser = (\<lambda>t. if t = ''t1'' then verified_as ''u1''
                      else \<lparr>auth_user = None, auth_error = Some ''invalid JWT''\<rparr>)\<rparr>"

definition hello :: "string \<Rightarrow> send_message" where
  "hello t = \<lparr>roomId = ''r1'', message = ''hello'', senderId = ''u1'', token = t\<rparr>"

section \<open>Properties\<close>

subsection \<open>Auxiliary facts about the client\<close>

lemma keys_distinct:
  "TOKEN_KEY \<noteq> REFRESH_TOKEN_KEY" "TOKEN_KEY \<noteq> USER_KEY" "REFRESH_TOKEN_KEY \<noteq> USER_KEY"
  by (simp_all add: TOKEN_KEY_def REFRESH_TOKEN_KEY_def USER_KEY_def)

lemma issue_fields:
  "accessToken (issue c w) = accessToken w" "refreshToken (issue c w) = refreshToken w"
  "storage (issue c w) = storage w" "calls (issue c w) = calls w @ [c]"
  "net (issue c w) = net w" "baseUrl (issue c w) = baseUrl w"
  by (simp_all add: issue_def)

lemma unchanged_by_tokens:
  "calls (saveTokens so w) = calls w" "calls (clearTokens w) = calls w"
  "net (saveTokens so w) = net w" "net (clearTokens w) = net w"
  "baseUrl (saveTokens so w) = baseUrl w" "baseUrl (clearTokens w) = baseUrl w"
  "net (saveUser uo w) = net w"
  by (simp_all add: clearTokens_def saveTokens_def saveUser_def setItem_def removeItem_def
      split: option.splits)

lemma clearTokens_fields:
  "accessToken (clearTokens w) = None" "refreshToken (clearTokens w) = None"
  "storage (clearTokens w) TOKEN_KEY = None" "storage (clearTokens w) REFRESH_TOKEN_KEY = None"
  "storage (clearTokens w) USER_KEY = None"
  by (simp_all add: clearTokens_def removeItem_def keys_distinct)

lemma saveTokens_fields:
  "accessToken (saveTokens (Some s) w) = Some (access_token s)"
  "refreshToken (saveTokens (Some s) w) = Some (refresh_token s)"
  "storage (saveTokens (Some s) w) TOKEN_KEY = Some (access_token s)"
  "storage (saveTokens (Some s) w) REFRESH_TOKEN_KEY = Some (refresh_token s)"
  by (simp_all add: saveTokens_def setItem_def keys_distinct)

lemma map_of_setHeader: "map_of (setHeader k v hs) k = Some v"
  by (induction hs) auto

lemma first_headers_refreshToken:
  "first_headers (w\<lparr>refreshToken := x\<rparr>) options = first_headers w options"
  by (simp add: first_headers_def Let_def)

lemma script_simps:
  "script (a # os) 0 = a" "script (a # os) (Suc n) = script os n" "script [] n = Rejected"
  by (simp_all add: script_def)

lemma client_fields:
  "baseUrl (client n) = ''http://localhost:3001''" "accessToken (client n) = Some ''a0''"
  "refreshToken (client n) = Some ''r0''" "net (client n) = n" "calls (client n) = []"
  "storage (client n) TOKEN_KEY = Some ''a0''"
  "storage (client n) REFRESH_TOKEN_KEY = Some ''r0''"
  "storage (client n) USER_KEY = Some ''u0''"
  by (simp_all add: client_def keys_distinct)


text \<open>A first response that is not answered by a refresh leaves only the call behind.\<close>

lemma request_plain:
  assumes "net w (length (calls w)) = Response st (Some d)" "st \<noteq> 401"
  shows "request endpoint options w =
     (if ok st then \<lparr>data = Some d, error = None\<rparr> else \<lparr>data = None, error = Some d\<rparr>,
      issue (Request (baseUrl w @ endpoint) (options\<lparr>headers := first_headers w options\<rparr>)) w)"
  using assms by (simp add: request_def fetch_def Let_def)

lemma request_no_body:
  assumes "net w (length (calls w)) = Rejected \<or> net w (length (calls w)) = Response st None"
  shows "request endpoint options w =
     (network_error,
      issue (Request (baseUrl w @ endpoint) (options\<lparr>headers := first_headers w options\<rparr>)) w)"
  using assms by (auto simp: request_def fetch_def Let_def)

text \<open>A 401 with a refresh token at hand: \<open>request\<close> goes on as the refresh decides.\<close>

lemma request_unauthorized_refresh:
  assumes "net w (length (calls w)) = Response 401 (Some d)"
      and "refreshToken w = Some tok" "tok \<noteq> []"
  shows "request endpoint options w =
     (case refreshAccessToken
             (issue (Request (baseUrl w @ endpoint)
                      (options\<lparr>headers := first_headers w options\<rparr>)) w) of
        (True, w2) \<Rightarrow>
          (let hs2 = setHeader ''Authorization'' (''Bearer '' @ template (accessToken w2))
                       (first_headers w options)
           in case fetch (Retry (baseUrl w @ endpoint) (options\<lparr>headers := hs2\<rparr>)) w2 of
                (Rejected, w3) \<Rightarrow> (network_error, w3)
              | (Response st2 None, w3) \<Rightarrow> (network_error, w3)
              | (Response st2 (Some d2), w3) \<Rightarrow> (as_result st2 d2, w3))
      | (False, w2) \<Rightarrow> (\<lparr>data = None, error = Some d\<rparr>, w2))"
  using assms by (simp add: request_def fetch_def Let_def ok_def issue_fields)


subsection \<open>Refresh and retry\<close>

text \<open>
  A call that runs on its own, is answered 401 while a refresh token is present, and
  whose refresh succeeds (an \<open>ok\<close> response that carries a session): both tokens are
  replaced by the new session's, in the fields and in storage; exactly three calls are
  issued, the request, one refresh and one retry, and the retry carries the new access
  token; the result is the retry's own, whatever it is, also when the retry is answered
  401 again.
\<close>

lemma request_alone_refresh_then_retry:
  assumes unauth: "net w (length (calls w)) = Response 401 (Some d)"
      and present: "refreshToken w = Some tok" "tok \<noteq> []"
      and refreshed: "net w (Suc (length (calls w))) = Response st (Some r)" "ok st"
                     "session_member r = Some s"
  shows "accessToken (snd (request endpoint options w)) = Some (access_token s)
       \<and> refreshToken (snd (request endpoint options w)) = Some (refresh_token s)
       \<and> storage (snd (request endpoint options w)) TOKEN_KEY = Some (access_token s)
       \<and> storage (snd (request endpoint options w)) REFRESH_TOKEN_KEY = Some (refresh_token s)
       \<and> calls (snd (request endpoint options w)) =
           calls w @
           [Request (baseUrl w @ endpoint) (options\<lparr>headers := first_headers w options\<rparr>),
            refresh_call w tok,
            Retry (baseUrl w @ endpoint)
              (options\<lparr>headers := setHeader ''Authorization'' (''Bearer '' @ access_token s)
                                     (first_headers w options)\<rparr>)]
       \<and> map_of (setHeader ''Authorization'' (''Bearer '' @ access_token s)
                   (first_headers w options)) ''Authorization''
           = Some (''Bearer '' @ access_token s)
       \<and> fst (request endpoint options w) =
           (case net w (Suc (Suc (length (calls w)))) of
              Rejected \<Rightarrow> network_error
            | Response st2 None \<Rightarrow> network_error
            | Response st2 (Some d2) \<Rightarrow>
                if ok st2 then \<lparr>data = Some d2, error = None\<rparr>
                else \<lparr>data = None, error = Some d2\<rparr>)"
proof -
  let ?w1 = "issue (Request (baseUrl w @ endpoint)
                     (options\<lparr>headers := first_headers w options\<rparr>)) w"
  let ?w2 = "saveTokens (Some s) (issue (refresh_call w tok) ?w1)"
  let ?retry = "Retry (baseUrl w @ endpoint)
              (options\<lparr>headers := setHeader ''Authorization'' (''Bearer '' @ access_token s)
                                     (first_headers w options)\<rparr>)"
  have rf: "refreshAccessToken ?w1 = (True, ?w2)"
    using present refreshed
    by (simp add: refreshAccessToken_def fetch_def issue_fields refresh_call_def)
  have "request endpoint options w =
      (case net w (Suc (Suc (length (calls w)))) of
         Rejected \<Rightarrow> network_error
       | Response st2 None \<Rightarrow> network_error
       | Response st2 (Some d2) \<Rightarrow> as_result st2 d2,
       issue ?retry ?w2)"
    using request_unauthorized_refresh [OF unauth present, of endpoint options] rf
    by (simp add: fetch_def saveTokens_fields unchanged_by_tokens issue_fields
        split: outcome.splits option.splits)
  then show ?thesis
    by (simp add: issue_fields saveTokens_fields unchanged_by_tokens map_of_setHeader
        as_result_def split: outcome.splits option.splits)
qed





text \<open>
  C9, as the code has it. A response that carries a JSON body and whose status is not
  401 is returned as it is: the body as \<open>data\<close> when the response is \<open>ok\<close>, as \<open>error\<close>
  otherwise. Nothing but the request is issued, the session is untouched, and the
  refresh token is not read: with any other refresh token the result and the calls are
  the same. A \<open>fetch\<close> that rejects is reported as the error \<open>Network error\<close>. The same
  error is reported for a response whose body cannot be parsed, of any status: the claim
  as stated, that every response but a 401 is returned as it is and that \<open>Network error\<close>
  tells a missing response from a backend error, fails there.
\<close>

theorem request_other_response_as_is:
  "(net w (length (calls w)) = Response st (Some d) \<and> st \<noteq> 401 \<longrightarrow>
      fst (request endpoint options w) =
        (if ok st then \<lparr>data = Some d, error = None\<rparr> else \<lparr>data = None, error = Some d\<rparr>)
      \<and> calls (snd (request endpoint options w)) =
          calls w @ [Request (baseUrl w @ endpoint)
                       (options\<lparr>headers := first_headers w options\<rparr>)]
      \<and> accessToken (snd (request endpoint options w)) = accessToken w
      \<and> refreshToken (snd (request endpoint options w)) = refreshToken w
      \<and> storage (snd (request endpoint options w)) = storage w
      \<and> fst (request endpoint options (w\<lparr>refreshToken := x\<rparr>)) = fst (request endpoint options w)
      \<and> calls (snd (request endpoint options (w\<lparr>refreshToken := x\<rparr>)))
          = calls (snd (request endpoint options w)))
   \<and> (net w (length (calls w)) = Rejected \<longrightarrow>
      fst (request endpoint options w) = network_error
      \<and> calls (snd (request endpoint options w)) =
          calls w @ [Request (baseUrl w @ endpoint)
                       (options\<lparr>headers := first_headers w options\<rparr>)])
   \<and> (net w (length (calls w)) = Response st None \<longrightarrow>
      fst (request endpoint options w) = network_error
      \<and> calls (snd (request endpoint options w)) =
          calls w @ [Request (baseUrl w @ endpoint)
                       (options\<lparr>headers := first_headers w options\<rparr>)])"
proof (intro conjI impI)
  assume a: "net w (length (calls w)) = Response st (Some d) \<and> st \<noteq> 401"
  have r: "request endpoint options w =
     (if ok st then \<lparr>data = Some d, error = None\<rparr> else \<lparr>data = None, error = Some d\<rparr>,
      issue (Request (baseUrl w @ endpoint) (options\<lparr>headers := first_headers w options\<rparr>)) w)"
    using a by (intro request_plain) simp_all
  have rx: "request endpoint options (w\<lparr>refreshToken := x\<rparr>) =
     (if ok st then \<lparr>data = Some d, error = None\<rparr> else \<lparr>data = None, error = Some d\<rparr>,
      issue (Request (baseUrl w @ endpoint) (options\<lparr>headers := first_headers w options\<rparr>))
        (w\<lparr>refreshToken := x\<rparr>))"
    using a request_plain [of "w\<lparr>refreshToken := x\<rparr>" st d endpoint options]
    by (simp add: first_headers_refreshToken)
  show "fst (request endpoint options w) =
        (if ok st then \<lparr>data = Some d, error = None\<rparr> else \<lparr>data = None, error = Some d\<rparr>)"
    "calls (snd (request endpoint options w)) =
          calls w @ [Request (baseUrl w @ endpoint)
                       (options\<lparr>headers := first_headers w options\<rparr>)]"
    "accessToken (snd (request endpoint options w)) = accessToken w"
    "refreshToken (snd (request endpoint options w)) = refreshToken w"
    "storage (snd (request endpoint options w)) = storage w"
    "fst (request endpoint options (w\<lparr>refreshToken := x\<rparr>)) = fst (request endpoint options w)"
    "calls (snd (request endpoint options (w\<lparr>refreshToken := x\<rparr>)))
          = calls (snd (request endpoint options w))"
    by (simp_all add: r rx issue_fields)
next
  assume "net w (length (calls w)) = Rejected"
  then have r: "request endpoint options w =
     (network_error,
      issue (Request (baseUrl w @ endpoint) (options\<lparr>headers := first_headers w options\<rparr>)) w)"
    by (intro request_no_body) simp
  show "fst (request endpoint options w) = network_error"
    "calls (snd (request endpoint options w)) =
          calls w @ [Request (baseUrl w @ endpoint)
                       (options\<lparr>headers := first_headers w options\<rparr>)]"
    by (simp_all add: r issue_fields)
next
  assume "net w (length (calls w)) = Response st None"
  then have r: "request endpoint options w =
     (network_error,
      issue (Request (baseUrl w @ endpoint) (options\<lparr>headers := first_headers w options\<rparr>)) w)"
    by (intro request_no_body) simp
  show "fst (request endpoint options w) = network_error"
    "calls (snd (request endpoint options w)) =
          calls w @ [Request (baseUrl w @ endpoint)
                       (options\<lparr>headers := first_headers w options\<rparr>)]"
    by (simp_all add: r issue_fields)
qed

theorem request_other_response_as_is_witness:
  "fst (request ''/api/profile'' no_options
      (client (script [Response 404 (Some (error_body ''Not Found''))])))
     = \<lparr>data = None, error = Some (error_body ''Not Found'')\<rparr>
   \<and> fst (request ''/api/profile'' no_options
      (client (script [Response 200 (Some profile_body)])))
     = \<lparr>data = Some profile_body, error = None\<rparr>
   \<and> fst (request ''/api/profile'' no_options (client (script [Rejected]))) = network_error"
  using request_other_response_as_is
    [of "client (script [Response 404 (Some (error_body ''Not Found''))])" 404
        "error_body ''Not Found''" "''/api/profile''" no_options]
    request_other_response_as_is
    [of "client (script [Response 200 (Some profile_body)])" 200
        profile_body "''/api/profile''" no_options]
    request_other_response_as_is
    [of "client (script [Rejected])" 200 profile_body "''/api/profile''" no_options]
  by (simp add: client_fields script_simps ok_def)

text \<open>
  The counterexample to C9 as stated: a response of status 500 whose body is not JSON
  does not signal unauthorized, and is not returned as it is. The caller gets the very
  error it gets when no response arrives at all.
\<close>

theorem request_unparsed_response_counterexample:
  "fst (request ''/api/profile'' no_options (client (script [Response 500 None])))
     = network_error
   \<and> fst (request ''/api/profile'' no_options (client (script [Response 500 None])))
     = fst (request ''/api/profile'' no_options (client (script [Rejected])))"
  by (simp add: request_no_body client_fields script_simps)

subsection \<open>The two tokens move together\<close>


































subsection \<open>Calls in flight together\<close>

text \<open>
  A call of \<open>request\<close> on its own, resumed as the network settles its calls, is what
  \<open>request\<close> computes: the tasks and the function describe the same code.
\<close>

lemma run_solo:
  "run [Call endpoint options,
        Settle 0 (net w (length (calls w))),
        Settle 0 (net w (Suc (length (calls w)))),
        Resume 0,
        Settle 0 (net w (Suc (Suc (length (calls w)))))] (w, [])
   = (snd (request endpoint options w), [Returned (fst (request endpoint options w))])"
  by (simp add: run_def start_def request_def refreshAccessToken_def fetch_def Let_def issue_fields
      unchanged_by_tokens refresh_call_def
      split: outcome.splits option.splits)


text \<open>
  Counting: every refresh call is issued by a task that leaves its first await, and no
  task returns there.
\<close>

lemma pending_append: "pending (ts @ [t]) = pending ts + (if awaiting_fetch t then 1 else 0)"
  by (simp add: pending_def)

lemma pending_update:
  "i < length ts \<Longrightarrow>
   pending (ts[i := t]) + (if awaiting_fetch (ts ! i) then 1 else 0)
     = pending ts + (if awaiting_fetch t then 1 else 0)"
proof (induction ts arbitrary: i)
  case Nil
  then show ?case by simp
next
  case (Cons a ts)
  show ?case
  proof (cases i)
    case 0
    then show ?thesis by (simp add: pending_def)
  next
    case (Suc j)
    with Cons.prems have "j < length ts" by simp
    from Cons.IH [OF this] Suc show ?thesis by (simp add: pending_def)
  qed
qed

lemma refreshes_simps:
  "refreshes (issue c w) = refreshes w + (if is_refresh c then 1 else 0)"
  "refreshes (clearTokens w) = refreshes w"
  "refreshes (saveTokens so w) = refreshes w"
  by (simp_all add: refreshes_def issue_def clearTokens_def saveTokens_def setItem_def removeItem_def
      split: option.splits)

lemma settle_bound:
  "refreshes (snd (settle t resp w)) + (if awaiting_fetch (fst (settle t resp w)) then 1 else 0)
     \<le> refreshes w + (if awaiting_fetch t then 1 else 0)"
  by (cases "(t, resp, w)" rule: settle.cases)
     (auto simp: refreshes_simps refresh_call_def split: outcome.splits option.splits)

lemma resume_bound:
  "refreshes (snd (resume t w)) + (if awaiting_fetch (fst (resume t w)) then 1 else 0)
     \<le> refreshes w + (if awaiting_fetch t then 1 else 0)"
  by (cases "(t, w)" rule: resume.cases) (auto simp: refreshes_simps)

lemma step_bound:
  "refreshes (fst (step cfg ev)) + pending (snd (step cfg ev))
     \<le> refreshes (fst cfg) + pending (snd cfg) + (if is_call ev then 1 else 0)"
proof (cases cfg)
  case (Pair w ts)
  show ?thesis
  proof (cases ev)
    case (Call endpoint options)
    with Pair show ?thesis
      by (simp add: start_def Let_def pending_append refreshes_simps)
  next
    case (Settle i resp)
    show ?thesis
    proof (cases "i < length ts")
      case True
      obtain t w' where s: "settle (ts ! i) resp w = (t, w')" by (cases "settle (ts ! i) resp w")
      from settle_bound [of "ts ! i" resp w] s pending_update [OF True, of t]
      show ?thesis using Pair Settle True by (simp split: if_splits)
    next
      case False
      with Pair Settle show ?thesis by simp
    qed
  next
    case (Resume i)
    show ?thesis
    proof (cases "i < length ts")
      case True
      obtain t w' where s: "resume (ts ! i) w = (t, w')" by (cases "resume (ts ! i) w")
      from resume_bound [of "ts ! i" w] s pending_update [OF True, of t]
      show ?thesis using Pair Resume True by (simp split: if_splits)
    next
      case False
      with Pair Resume show ?thesis by simp
    qed
  qed
qed

lemma run_bound:
  "refreshes (fst (run evs cfg)) + pending (snd (run evs cfg))
     \<le> refreshes (fst cfg) + pending (snd cfg) + length (filter is_call evs)"
proof (induction evs arbitrary: cfg)
  case Nil
  then show ?case by (simp add: run_def)
next
  case (Cons ev evs)
  have r: "run (ev # evs) cfg = run evs (step cfg ev)" by (simp add: run_def)
  have c: "length (filter is_call (ev # evs)) = (if is_call ev then 1 else 0) + length (filter is_call evs)"
    by simp
  show ?case
    unfolding r c using Cons.IH [of "step cfg ev"] step_bound [of cfg ev]
    by (cases "is_call ev") simp_all
qed

text \<open>
  C1, as the code has it. The client has no guard around the refresh: no field records a
  refresh in flight, and \<open>request\<close> calls \<open>refreshAccessToken\<close> whenever it is resumed
  with a 401 whose body has been parsed while the refresh token is set. So each such
  call issues a refresh call of its own, whatever the other calls in flight are doing. A
  401 whose body cannot be parsed issues no refresh: the call returns \<open>Network error\<close>.
  N calls issue at most N refresh calls.
\<close>

theorem one_refresh_per_call:
  "refreshes (fst (run evs (w, []))) \<le> refreshes w + length (filter is_call evs)
   \<and> (refreshToken w = Some tok \<and> tok \<noteq> [] \<longrightarrow>
        settle (AwaitFetch url options hs) (Response 401 (Some d)) w
          = (AwaitRefresh url options hs d, issue (refresh_call w tok) w)
        \<and> refreshes (issue (refresh_call w tok) w) = Suc (refreshes w))
   \<and> settle (AwaitFetch url options hs) (Response 401 None) w = (Returned network_error, w)"
proof -
  have "refreshes (fst (run evs (w, []))) + pending (snd (run evs (w, [])))
          \<le> refreshes w + pending [] + length (filter is_call evs)"
    using run_bound [of evs "(w, [])"] by simp
  then have "refreshes (fst (run evs (w, []))) \<le> refreshes w + length (filter is_call evs)"
    by (simp add: pending_def)
  then show ?thesis
    by (simp add: ok_def refreshes_simps refresh_call_def)
qed

theorem one_refresh_per_call_witness:
  "refreshes (fst (run two_calls (client (script []), []))) \<le> 2
   \<and> settle (AwaitFetch ''http://localhost:3001/api/profile'' no_options [])
        (Response 401 (Some (error_body ''Unauthorized''))) (client (script []))
      = (AwaitRefresh ''http://localhost:3001/api/profile'' no_options []
           (error_body ''Unauthorized''),
         issue (refresh_call (client (script [])) ''r0'') (client (script [])))"
  using one_refresh_per_call
    [of two_calls "client (script [])" "''r0''" "''http://localhost:3001/api/profile''"
        no_options "[]" "error_body ''Unauthorized''"]
  by (simp add: client_fields two_calls_def refreshes_def)

text \<open>
  The counterexample to C1 as stated: two calls are in flight, each is answered 401
  while the refresh token \<open>r0\<close> is set. Two refresh calls reach the backend, not one; the
  first call then succeeds and the second fails with the unauthorized error: a mix.
\<close>

theorem two_calls_two_refreshes_counterexample:
  "refreshes (fst (run two_calls (client (script []), []))) = 2
   \<and> snd (run two_calls (client (script []), []))
       = [Returned \<lparr>data = Some profile_body, error = None\<rparr>,
          Returned \<lparr>data = None, error = Some (error_body ''Unauthorized'')\<rparr>]"
  by (simp add: two_calls_def run_def start_def Let_def client_fields issue_fields
      unchanged_by_tokens ok_def refreshes_def refresh_call_def as_result_def session_body_def
      saveTokens_fields clearTokens_fields)








subsection \<open>The relay\<close>

lemma set_add_idem: "set_add x (set_add x xs) = set_add x xs"
  by (simp add: set_add_def)

lemma set_delete_absent: "x \<notin> set xs \<Longrightarrow> set_delete x xs = xs"
  by (simp add: set_delete_def)

lemma not_verified:
  "(resp \<noteq> verified_as uid) = (auth_error resp \<noteq> None \<or> auth_user resp \<noteq> Some uid)"
  by (cases resp) (auto simp: verified_as_def)

lemma send_message_unauthorized:
  assumes "getUser r (token d) \<noteq> verified_as (senderId d)"
  shows "on_send_message sid now d r =
     ([SocketEmit sid ''error'' (ErrorPacket ''Unauthorized'')], r)"
  using assms by (auto simp: on_send_message_def Let_def not_verified)

lemma send_message_authorized:
  assumes "getUser r (token d) = verified_as (senderId d)"
  shows "on_send_message sid now d r =
     (case insert_single (messageData now d) (db r) of
        (res, db') \<Rightarrow>
          (case insert_failure res of
             Some e \<Rightarrow>
               ([SocketEmit sid ''error'' (ErrorPacket ''Failed to send message'')],
                r\<lparr>db := db'\<rparr>)
           | None \<Rightarrow>
               ([IoTo (roomId d) ''receive-message'' (MessagePacket (inserted res))],
                r\<lparr>db := db'\<rparr>)))"
  using assms by (simp add: on_send_message_def Let_def verified_as_def)

lemma stored_row_fields:
  "content (stored_row (messageData now d) b) = message d"
  "room_id (stored_row (messageData now d) b) = roomId d"
  "sender_id (stored_row (messageData now d) b) = senderId d"
  "created_at (stored_row (messageData now d) b) = now"
  "message_id (stored_row (messageData now d) b) = new_id b (length (chat_messages b))"
  by (simp_all add: stored_row_def messageData_def message_data.extend_def
      chat_message.fields_def)

lemma sample_relay_fields:
  "rooms (sample_relay f) ''r1'' = [''X'', ''Y'']"
  "getUser (sample_relay f) ''t1'' = verified_as ''u1''"
  "getUser (sample_relay f) ''t2'' = \<lparr>auth_user = None, auth_error = Some ''invalid JWT''\<rparr>"
  "insert_error (db (sample_relay f)) = f"
  "chat_messages (db (sample_relay f)) = []"
  "new_id (db (sample_relay f)) n = ''m1''"
  by (simp_all add: sample_relay_def)

lemma hello_fields:
  "roomId (hello t) = ''r1''" "message (hello t) = ''hello''" "senderId (hello t) = ''u1''"
  "token (hello t) = t"
  by (simp_all add: hello_def)

text \<open>
  C4. For every send-message event: when the insert is refused, the handler emits the
  error \<open>Failed to send message\<close> with \<open>socket.emit\<close>, which reaches the originating
  connection only, and the table is as it was; the handler emits to a room exactly when
  the table has changed; and what it emits to a room is the event \<open>receive-message\<close> to
  the room of the event, carrying the row that the accepted insert has appended to the
  table.
\<close>

theorem send_message_broadcast_iff_persisted:
  "(getUser r (token d) = verified_as (senderId d)
      \<and> insert_error (db r) (messageData now d) = Some e \<longrightarrow>
      fst (on_send_message sid now d r) =
        [SocketEmit sid ''error'' (ErrorPacket ''Failed to send message'')]
      \<and> recipients r (SocketEmit sid ''error'' (ErrorPacket ''Failed to send message'')) = [sid]
      \<and> db (snd (on_send_message sid now d r)) = db r)
   \<and> ((\<exists>room ev p. IoTo room ev p \<in> set (fst (on_send_message sid now d r)))
        = (chat_messages (db (snd (on_send_message sid now d r))) \<noteq> chat_messages (db r)))
   \<and> (IoTo room ev p \<in> set (fst (on_send_message sid now d r)) \<longrightarrow>
        room = roomId d \<and> ev = ''receive-message''
        \<and> p = MessagePacket (Some (stored_row (messageData now d) (db r)))
        \<and> insert_error (db r) (messageData now d) = None
        \<and> chat_messages (db (snd (on_send_message sid now d r))) =
             chat_messages (db r) @ [stored_row (messageData now d) (db r)])"
proof (cases "getUser r (token d) = verified_as (senderId d)")
  case True
  then show ?thesis
    by (cases "insert_error (db r) (messageData now d)")
       (simp_all add: send_message_authorized insert_single_def)
next
  case False
  then have "on_send_message sid now d r =
      ([SocketEmit sid ''error'' (ErrorPacket ''Unauthorized'')], r)"
    by (rule send_message_unauthorized)
  with False show ?thesis by simp
qed

theorem send_message_broadcast_iff_persisted_witness:
  "fst (on_send_message ''X'' ''2026-01-01T00:00:00.000Z'' (hello ''t1'')
         (sample_relay (\<lambda>md. Some ''insert refused'')))
     = [SocketEmit ''X'' ''error'' (ErrorPacket ''Failed to send message'')]
   \<and> chat_messages (db (snd (on_send_message ''X'' ''2026-01-01T00:00:00.000Z'' (hello ''t1'')
         (sample_relay (\<lambda>md. Some ''insert refused''))))) = []"
  using send_message_broadcast_iff_persisted
    [of "sample_relay (\<lambda>md. Some ''insert refused'')" "hello ''t1''"
        "''2026-01-01T00:00:00.000Z''" "''insert refused''" "''X''"]
  by (simp add: sample_relay_fields hello_fields)

text \<open>
  C5. For every send-message event whose token is not verified as the \<open>senderId\<close> of the
  event (the verification returns an error, or no user, or another user): the handler
  emits the error \<open>Unauthorized\<close> with \<open>socket.emit\<close>, which reaches the originating
  connection only, emits nothing else, and leaves the relay, its table included, as it
  was.
\<close>

theorem send_message_unauthorized_rejected:
  assumes "auth_error (getUser r (token d)) \<noteq> None
         \<or> auth_user (getUser r (token d)) \<noteq> Some (senderId d)"
  shows "fst (on_send_message sid now d r) =
           [SocketEmit sid ''error'' (ErrorPacket ''Unauthorized'')]
       \<and> recipients r (SocketEmit sid ''error'' (ErrorPacket ''Unauthorized'')) = [sid]
       \<and> snd (on_send_message sid now d r) = r"
proof -
  have "getUser r (token d) \<noteq> verified_as (senderId d)"
    using assms by (simp add: not_verified)
  then show ?thesis by (simp add: send_message_unauthorized)
qed

theorem send_message_unauthorized_rejected_witness:
  "fst (on_send_message ''X'' ''2026-01-01T00:00:00.000Z'' (hello ''t2'')
         (sample_relay (\<lambda>md. None)))
     = [SocketEmit ''X'' ''error'' (ErrorPacket ''Unauthorized'')]
   \<and> snd (on_send_message ''X'' ''2026-01-01T00:00:00.000Z'' (hello ''t2'')
         (sample_relay (\<lambda>md. None))) = sample_relay (\<lambda>md. None)"
  using send_message_unauthorized_rejected
    [of "sample_relay (\<lambda>md. None)" "hello ''t2''" "''X''" "''2026-01-01T00:00:00.000Z''"]
  by (simp add: sample_relay_fields hello_fields)

text \<open>
  C6. For every send-message event whose token is verified as its \<open>senderId\<close> and whose
  insert is accepted: the handler emits one event, \<open>receive-message\<close>, with
  \<open>io.to(roomId)\<close>. It carries the row the table now holds: the content is the message
  sent, the timestamp is the one the handler took, the id is the one the table assigned.
  Its recipients are the members of the room, the originating connection among them when
  it has joined the room.
\<close>

theorem send_message_persisted_broadcast:
  assumes "getUser r (token d) = verified_as (senderId d)"
      and "insert_error (db r) (messageData now d) = None"
  shows "fst (on_send_message sid now d r) =
           [IoTo (roomId d) ''receive-message''
              (MessagePacket (Some (stored_row (messageData now d) (db r))))]
       \<and> chat_messages (db (snd (on_send_message sid now d r))) =
           chat_messages (db r) @ [stored_row (messageData now d) (db r)]
       \<and> content (stored_row (messageData now d) (db r)) = message d
       \<and> created_at (stored_row (messageData now d) (db r)) = now
       \<and> message_id (stored_row (messageData now d) (db r))
           = new_id (db r) (length (chat_messages (db r)))
       \<and> recipients (snd (on_send_message sid now d r))
           (IoTo (roomId d) ''receive-message''
              (MessagePacket (Some (stored_row (messageData now d) (db r)))))
          = rooms r (roomId d)
       \<and> (sid \<in> set (rooms r (roomId d)) \<longrightarrow>
            sid \<in> set (recipients (snd (on_send_message sid now d r))
              (IoTo (roomId d) ''receive-message''
                 (MessagePacket (Some (stored_row (messageData now d) (db r)))))))"
  using assms
  by (simp add: send_message_authorized insert_single_def stored_row_fields)

theorem send_message_persisted_broadcast_witness:
  "recipients (snd (on_send_message ''X'' ''2026-01-01T00:00:00.000Z'' (hello ''t1'')
         (sample_relay (\<lambda>md. None))))
      (IoTo ''r1'' ''receive-message''
         (MessagePacket (Some (stored_row (messageData ''2026-01-01T00:00:00.000Z''
            (hello ''t1'')) (db (sample_relay (\<lambda>md. None)))))))
     = [''X'', ''Y'']
   \<and> content (stored_row (messageData ''2026-01-01T00:00:00.000Z'' (hello ''t1''))
        (db (sample_relay (\<lambda>md. None)))) = ''hello''
   \<and> message_id (stored_row (messageData ''2026-01-01T00:00:00.000Z'' (hello ''t1''))
        (db (sample_relay (\<lambda>md. None)))) = ''m1''"
  using send_message_persisted_broadcast
    [of "sample_relay (\<lambda>md. None)" "hello ''t1''" "''2026-01-01T00:00:00.000Z''" "''X''"]
  by (simp add: sample_relay_fields hello_fields)

text \<open>
  C7. Joining a room twice leaves the relay as joining it once does, and leaving a room
  the connection is not a member of leaves the relay as it was.
\<close>

theorem join_idempotent_leave_absent_noop:
  "on_join_room c room (snd (on_join_room c room r)) = on_join_room c room r
   \<and> (c \<notin> set (rooms r room) \<longrightarrow> on_leave_room c room r = ([], r))"
  by (simp add: on_join_room_def on_leave_room_def socket_join_def socket_leave_def
      set_add_idem set_delete_absent)

theorem join_idempotent_leave_absent_noop_witness:
  "rooms (snd (on_join_room ''Z'' ''r1'' (snd (on_join_room ''Z'' ''r1''
       (sample_relay (\<lambda>md. None)))))) ''r1'' = [''X'', ''Y'', ''Z'']
   \<and> on_leave_room ''Z'' ''r1'' (sample_relay (\<lambda>md. None))
       = ([], sample_relay (\<lambda>md. None))"
  using join_idempotent_leave_absent_noop [of "''Z''" "''r1''" "sample_relay (\<lambda>md. None)"]
  by (simp add: sample_relay_fields on_join_room_def socket_join_def set_add_def)

end
